theory Spec2Isabelle
  imports Main
begin

section \<open>Values, errors and the platform\<close>

text \<open>
  The development embeds \<^verbatim>\<open>src/app/storage/storage.ts\<close>: the function
  \<^verbatim>\<open>storageFactory\<close> and the two decorators built on it, together with the
  converter that \<^verbatim>\<open>storage.spec.ts\<close> passes to them.

  TypeScript's types are erased when the code runs, so the values that flow through
  \<^verbatim>\<open>storageFactory\<close> are plain JavaScript values. The datatype covers the
  values that JSON text denotes, \<^verbatim>\<open>undefined\<close>, and \<^verbatim>\<open>Date\<close>
  objects. Numbers are the integers; \<^verbatim>\<open>NaN\<close> is kept because it is the time
  value of an invalid date. An object is the list of its own enumerable properties.
\<close>

datatype jsval =
    JNull
  | JUndefined
  | JBool bool
  | JNum int
  | JNaN
  | JStr string
  | JArr "jsval list"
  | JObj "(string \<times> jsval) list"
  | JDate int
  | JInvalidDate

datatype error = Error string | SyntaxError string | TypeError string | RangeError string

text \<open>\<^verbatim>\<open>value == null\<close> holds of \<^verbatim>\<open>null\<close> and of \<^verbatim>\<open>undefined\<close>.\<close>

fun nullish :: "jsval \<Rightarrow> bool" where
  "nullish JNull = True"
| "nullish JUndefined = True"
| "nullish _ = False"

text \<open>
  \<^verbatim>\<open>JSON.stringify\<close> and \<^verbatim>\<open>JSON.parse\<close> belong to the platform, not to the
  repository, so they are a parameter of the embedding. \<^verbatim>\<open>JSON.stringify\<close> returns a
  string or \<^verbatim>\<open>undefined\<close> (\<open>None\<close>), or throws; \<^verbatim>\<open>JSON.parse\<close> returns a value
  or throws.
\<close>

record codec =
  stringify :: "jsval \<Rightarrow> error + string option"
  parse :: "string \<Rightarrow> error + jsval"

text \<open>The interface \<^verbatim>\<open>JsonConverter\<close> (lines 5 to 8); either function may throw.\<close>

record JsonConverter =
  toJson :: "jsval \<Rightarrow> error + jsval"
  fromJson :: "jsval \<Rightarrow> error + jsval"

section \<open>The store and the trace\<close>

text \<open>
  A \<^verbatim>\<open>Storage\<close> object maps keys to strings. The trace records, in order, every call
  made on the store, every value delivered to the write-back observer (\<open>Next\<close>), and
  every exception the observer raised (\<open>Unhandled\<close>). The store itself is taken not to
  fail: a quota or security exception of \<^verbatim>\<open>setItem\<close> is outside the model.
\<close>

datatype event =
    GetItem string
  | SetItem string string
  | RemoveItem string
  | Next jsval
  | Unhandled error

record Storage =
  items :: "string \<rightharpoonup> string"
  trace :: "event list"

text \<open>The storage together with the current value of the \<^verbatim>\<open>BehaviorSubject\<close> bound to it.\<close>

record binding = Storage +
  cur :: jsval

definition storage_of :: "binding \<Rightarrow> Storage" where
  "storage_of b = \<lparr>items = items b, trace = trace b\<rparr>"

definition getItem :: "string \<Rightarrow> 'a Storage_scheme \<Rightarrow> string option \<times> 'a Storage_scheme" where
  "getItem k st = (items st k, st\<lparr>trace := trace st @ [GetItem k]\<rparr>)"

definition setItem :: "string \<Rightarrow> string \<Rightarrow> 'a Storage_scheme \<Rightarrow> 'a Storage_scheme" where
  "setItem k s st = st\<lparr>items := (items st)(k \<mapsto> s), trace := trace st @ [SetItem k s]\<rparr>"

definition removeItem :: "string \<Rightarrow> 'a Storage_scheme \<Rightarrow> 'a Storage_scheme" where
  "removeItem k st = st\<lparr>items := (items st)(k := None), trace := trace st @ [RemoveItem k]\<rparr>"

text \<open>
  \<^verbatim>\<open>setItem\<close> converts its second argument to a string; \<^verbatim>\<open>undefined\<close> becomes the
  nine letters of its name.
\<close>

fun ToString :: "string option \<Rightarrow> string" where
  "ToString None = ''undefined''"
| "ToString (Some s) = s"

text \<open>
  rxjs catches an exception raised by an observer's \<^verbatim>\<open>next\<close> handler and reports it
  from a later timer callback; the publisher carries on. The trace keeps the report.
\<close>

definition unhandled :: "error \<Rightarrow> 'a Storage_scheme \<Rightarrow> 'a Storage_scheme" where
  "unhandled err st = st\<lparr>trace := trace st @ [Unhandled err]\<rparr>"

section \<open>storageFactory\<close>

text \<open>
  What the two arrow functions of \<^verbatim>\<open>storageFactory\<close> close over: the parameters
  \<^verbatim>\<open>keyPrefix\<close>, \<^verbatim>\<open>storageKey\<close>, \<^verbatim>\<open>fallbackState\<close> and the optional
  \<^verbatim>\<open>converter\<close>, and, of the platform, the \<^verbatim>\<open>JSON\<close> object and the room
  on the call stack. The parameter \<^verbatim>\<open>storage\<close> is the state that is threaded
  through.
\<close>

definition STORAGE_KEYS_PREFIX :: string where
  "STORAGE_KEYS_PREFIX = ''rca_''"

record env =
  JSON :: codec
  headroom :: nat
  keyPrefix :: string
  storageKey :: string
  fallbackState :: jsval
  converter :: "JsonConverter option"

definition fullKey :: "env \<Rightarrow> string" where
  "fullKey e = keyPrefix e @ storageKey e"

text \<open>
  The observer passed to \<^verbatim>\<open>subject.subscribe\<close> (lines 40 to 51). The call
  \<^verbatim>\<open>subject.next(fallbackState)\<close> in its first branch stores the fallback as the
  subject's value and delivers it to the subject's observers, that is, to this same
  function: the recursion is the source's, and the source does not bound it.

  The engine's call stack does. The first argument of the observer is the number of nested
  deliveries the stack still has room for. With no room left the delivery raises a
  \<^verbatim>\<open>RangeError\<close>, which rxjs catches like any exception of an observer, and every
  call on the way returns. Which call of the chain meets the end of the stack depends on
  the engine; the model lets it be the delivery. A publish or a construction starts with
  room for the two deliveries that one reset takes and for \<open>headroom\<close> more; an engine
  has room for thousands.
\<close>

definition stack_overflow :: error where
  "stack_overflow = RangeError ''Maximum call stack size exceeded''"

definition depth :: "env \<Rightarrow> nat" where
  "depth e = Suc (Suc (headroom e))"

fun observer :: "nat \<Rightarrow> env \<Rightarrow> jsval \<Rightarrow> binding \<Rightarrow> binding" where
  "observer 0 e v b = unhandled stack_overflow b"
| "observer (Suc d) e v b =
     (let b0 = b\<lparr>trace := trace b @ [Next v]\<rparr> in
      if nullish v then
        observer d e (fallbackState e) ((removeItem (fullKey e) b0)\<lparr>cur := fallbackState e\<rparr>)
      else if converter e \<noteq> None \<and> \<not> nullish v then
        (case toJson (the (converter e)) v of
           Inl err \<Rightarrow> unhandled err b0
         | Inr jsonValue \<Rightarrow>
             (case stringify (JSON e) jsonValue of
                Inl err \<Rightarrow> unhandled err b0
              | Inr s \<Rightarrow> setItem (fullKey e) (ToString s) b0))
      else
        (case stringify (JSON e) v of
           Inl err \<Rightarrow> unhandled err b0
         | Inr s \<Rightarrow> setItem (fullKey e) (ToString s) b0))"

text \<open>
  \<^verbatim>\<open>subject.next(v)\<close> on a \<^verbatim>\<open>BehaviorSubject\<close>: the value is stored, then
  delivered synchronously to the observer.
\<close>

definition subject_next :: "env \<Rightarrow> jsval \<Rightarrow> binding \<Rightarrow> binding" where
  "subject_next e v b = observer (depth e) e v (b\<lparr>cur := v\<rparr>)"

text \<open>A string is truthy when it is present and not empty (lines 29 and 32).\<close>

fun truthy :: "string option \<Rightarrow> bool" where
  "truthy None = False"
| "truthy (Some s) = (s \<noteq> [])"

definition dquote :: char where
  "dquote = CHR 0x22"

text \<open>The message of the exception of line 23, a template literal around the key.\<close>

definition key_message :: "string \<Rightarrow> string" where
  "key_message k =
     [dquote] @ ''storageKey'' @ [dquote] @ '' must be a nonempty string, but '' @
     [dquote] @ k @ [dquote] @ '' was passed.''"

text \<open>Lines 27 to 36: the initial value, or the exception of the decoder.\<close>

definition initialValue :: "env \<Rightarrow> string option \<Rightarrow> error + jsval" where
  "initialValue e storedString =
     (if truthy storedString \<and> converter e \<noteq> None then
        (case parse (JSON e) (the storedString) of
           Inl err \<Rightarrow> Inl err
         | Inr parsedValue \<Rightarrow> fromJson (the (converter e)) parsedValue)
      else if truthy storedString then parse (JSON e) (the storedString)
      else Inr (fallbackState e))"

text \<open>
  The outcome of a call of \<^verbatim>\<open>storageFactory\<close>: it throws, leaving the storage in
  some state, or it returns the subject. Subscribing to a \<^verbatim>\<open>BehaviorSubject\<close>
  delivers its current value to the new observer at once, so the observer runs on the
  initial value before \<^verbatim>\<open>storageFactory\<close> returns.
\<close>

datatype outcome = Threw error Storage | Returned binding

definition storageFactory :: "env \<Rightarrow> Storage \<Rightarrow> outcome" where
  "storageFactory e storage =
     (if storageKey e = [] then Threw (Error (key_message (storageKey e))) storage
      else
        (case getItem (fullKey e) storage of
           (storedString, st1) \<Rightarrow>
             (case initialValue e storedString of
                Inl err \<Rightarrow> Threw err st1
              | Inr v \<Rightarrow>
                  Returned
                    (observer (depth e) e v \<lparr>items = items st1, trace = trace st1, cur = v\<rparr>))))"

section \<open>The decorators\<close>



datatype property = Accessor nat bool | DataProp jsval bool


record object =
  props :: "string \<rightharpoonup> property"
  proto :: "nat option"
  extensible :: bool

















section \<open>The converter of the tests\<close>

text \<open>
  \<^verbatim>\<open>testkey2Converter\<close> of \<^verbatim>\<open>storage.spec.ts\<close> (lines 7 to 10) turns
  \<^verbatim>\<open>{date: Date}\<close> into \<^verbatim>\<open>{date: number}\<close> with \<^verbatim>\<open>getTime\<close> and back with
  \<^verbatim>\<open>new Date\<close>. A time value is valid up to 8.64e15 milliseconds either side of the
  epoch. \<^verbatim>\<open>new Date(v)\<close> for a string, an array or a plain object goes through the
  platform's parser of date strings, which ECMAScript leaves to the implementation: it is
  the parameter \<open>P\<close>.
\<close>

definition TimeClip :: "int \<Rightarrow> jsval" where
  "TimeClip t = (if \<bar>t\<bar> \<le> 8640000000000000 then JDate t else JInvalidDate)"

fun Date_new :: "(jsval \<Rightarrow> jsval) \<Rightarrow> jsval \<Rightarrow> jsval" where
  "Date_new P (JNum t) = TimeClip t"
| "Date_new P JNaN = JInvalidDate"
| "Date_new P JUndefined = JInvalidDate"
| "Date_new P JNull = JDate 0"
| "Date_new P (JBool b) = JDate (if b then 1 else 0)"
| "Date_new P (JDate t) = JDate t"
| "Date_new P JInvalidDate = JInvalidDate"
| "Date_new P v = P v"

fun getTime :: "jsval \<Rightarrow> error + jsval" where
  "getTime (JDate t) = Inr (JNum t)"
| "getTime JInvalidDate = Inr JNaN"
| "getTime JNull = Inl (TypeError ''Cannot read properties of null'')"
| "getTime JUndefined = Inl (TypeError ''Cannot read properties of undefined'')"
| "getTime _ = Inl (TypeError ''getTime is not a function'')"

text \<open>The property read \<^verbatim>\<open>object.date\<close>; it throws on \<^verbatim>\<open>null\<close> and \<^verbatim>\<open>undefined\<close>.\<close>

fun date_of :: "jsval \<Rightarrow> error + jsval" where
  "date_of JNull = Inl (TypeError ''Cannot read properties of null'')"
| "date_of JUndefined = Inl (TypeError ''Cannot read properties of undefined'')"
| "date_of (JObj ps) = Inr (case map_of ps ''date'' of None \<Rightarrow> JUndefined | Some d \<Rightarrow> d)"
| "date_of _ = Inr JUndefined"

definition testkey2Converter :: "(jsval \<Rightarrow> jsval) \<Rightarrow> JsonConverter" where
  "testkey2Converter P =
     \<lparr>toJson = (\<lambda>object.
        case date_of object of
          Inl err \<Rightarrow> Inl err
        | Inr d \<Rightarrow> (case getTime d of Inl err \<Rightarrow> Inl err | Inr t \<Rightarrow> Inr (JObj [(''date'', t)]))),
      fromJson = (\<lambda>object.
        case date_of object of
          Inl err \<Rightarrow> Inl err
        | Inr d \<Rightarrow> Inr (JObj [(''date'', Date_new P d)]))\<rparr>"

definition DEFAULT_DATE :: jsval where
  "DEFAULT_DATE = JDate 1704067200000"

section \<open>A reference codec\<close>

text \<open>
  A concrete codec, used to run the embedding on concrete inputs. It follows
  ECMAScript's \<^verbatim>\<open>JSON\<close> on the values of \<open>jsval\<close>: a string is a list of code
  units below 256, a number is an integer literal (a literal with a fraction or an
  exponent is refused as outside the fragment, as is an escape of a code unit of 256 or
  more), and the properties of an object keep their order of insertion (keys that are
  array indices are not moved to the front).
\<close>

definition backslash :: char where "backslash = CHR 0x5C"

definition digit_char :: "nat \<Rightarrow> char" where
  "digit_char d = ''0123456789abcdef'' ! d"

function show_nat :: "int \<Rightarrow> string" where
  "show_nat n = (if n < 10 then [digit_char (nat n)] else show_nat (n div 10) @ [digit_char (nat (n mod 10))])"
  by pat_completeness auto
termination
  by (relation "measure nat") auto
declare show_nat.simps [simp del]

definition show_int :: "int \<Rightarrow> string" where
  "show_int i = (if i < 0 then CHR ''-'' # show_nat (- i) else show_nat i)"

definition escape :: "char \<Rightarrow> string" where
  "escape c =
     (if c = dquote then [backslash, dquote]
      else if c = backslash then [backslash, backslash]
      else if c = CHR 0x08 then [backslash, CHR ''b'']
      else if c = CHR 0x0C then [backslash, CHR ''f'']
      else if c = CHR 0x0A then [backslash, CHR ''n'']
      else if c = CHR 0x0D then [backslash, CHR ''r'']
      else if c = CHR 0x09 then [backslash, CHR ''t'']
      else if (of_char c :: nat) < 32 then
        [backslash, CHR ''u'', CHR ''0'', CHR ''0'', digit_char (of_char c div 16), digit_char (of_char c mod 16)]
      else [c])"

definition quote :: "string \<Rightarrow> string" where
  "quote s = dquote # concat (map escape s) @ [dquote]"

fun commas :: "string list \<Rightarrow> string" where
  "commas [] = []"
| "commas [x] = x"
| "commas (x # y # ys) = x @ CHR '','' # commas (y # ys)"

text \<open>\<^verbatim>\<open>Date.prototype.toISOString\<close>, which \<^verbatim>\<open>JSON.stringify\<close> applies to a valid date.\<close>

definition pad :: "nat \<Rightarrow> int \<Rightarrow> string" where
  "pad w n = replicate (w - length (show_nat n)) CHR ''0'' @ show_nat n"

definition toISOString :: "int \<Rightarrow> string" where
  "toISOString t =
     (let days = t div 86400000;
          ms = t mod 86400000;
          z = days + 719468;
          era = z div 146097;
          doe = z - era * 146097;
          yoe = (doe - doe div 1460 + doe div 36524 - doe div 146096) div 365;
          doy = doe - (365 * yoe + yoe div 4 - yoe div 100);
          mp = (5 * doy + 2) div 153;
          d = doy - (153 * mp + 2) div 5 + 1;
          m = (if mp < 10 then mp + 3 else mp - 9);
          y = yoe + era * 400 + (if m \<le> 2 then 1 else 0);
          year = (if 0 \<le> y \<and> y \<le> 9999 then pad 4 y
                  else (if y < 0 then CHR ''-'' else CHR ''+'') # pad 6 \<bar>y\<bar>)
      in year @ CHR ''-'' # pad 2 m @ CHR ''-'' # pad 2 d @ CHR ''T'' #
         pad 2 (ms div 3600000) @ CHR '':'' # pad 2 (ms div 60000 mod 60) @ CHR '':'' #
         pad 2 (ms div 1000 mod 60) @ CHR ''.'' # pad 3 (ms mod 1000) @ ''Z'')"

text \<open>
  The text of a value. \<^verbatim>\<open>undefined\<close> is \<^verbatim>\<open>null\<close> inside an array and is left out
  of an object; at top level \<^verbatim>\<open>JSON.stringify\<close> returns \<^verbatim>\<open>undefined\<close> for it.
\<close>

fun text_of :: "jsval \<Rightarrow> string"
  and elements :: "jsval list \<Rightarrow> string list"
  and members :: "(string \<times> jsval) list \<Rightarrow> string list" where
  "text_of JNull = ''null''"
| "text_of JUndefined = ''null''"
| "text_of (JBool b) = (if b then ''true'' else ''false'')"
| "text_of (JNum i) = show_int i"
| "text_of JNaN = ''null''"
| "text_of (JStr s) = quote s"
| "text_of (JArr xs) = CHR ''['' # commas (elements xs) @ '']''"
| "text_of (JObj ps) = CHR ''{'' # commas (members ps) @ ''}''"
| "text_of (JDate t) = quote (toISOString t)"
| "text_of JInvalidDate = ''null''"
| "elements [] = []"
| "elements (x # xs) = text_of x # elements xs"
| "members [] = []"
| "members (p # ps) =
     (if snd p = JUndefined then members ps
      else (quote (fst p) @ CHR '':'' # text_of (snd p)) # members ps)"

definition ref_stringify :: "jsval \<Rightarrow> error + string option" where
  "ref_stringify v = (if v = JUndefined then Inr None else Inr (Some (text_of v)))"

definition is_ws :: "char \<Rightarrow> bool" where
  "is_ws c = (c = CHR '' '' \<or> c = CHR 0x09 \<or> c = CHR 0x0A \<or> c = CHR 0x0D)"

definition is_digit :: "char \<Rightarrow> bool" where
  "is_digit c = (c \<in> set ''0123456789'')"

definition skip_ws :: "string \<Rightarrow> string" where
  "skip_ws s = dropWhile is_ws s"

definition read_digits :: "string \<Rightarrow> int" where
  "read_digits ds = foldl (\<lambda>a c. 10 * a + (of_char c - 48)) 0 ds"

definition unescape :: "char \<Rightarrow> char option" where
  "unescape d =
     (if d = dquote \<or> d = backslash \<or> d = CHR ''/'' then Some d
      else if d = CHR ''b'' then Some (CHR 0x08)
      else if d = CHR ''f'' then Some (CHR 0x0C)
      else if d = CHR ''n'' then Some (CHR 0x0A)
      else if d = CHR ''r'' then Some (CHR 0x0D)
      else if d = CHR ''t'' then Some (CHR 0x09)
      else None)"

definition hex_val :: "char \<Rightarrow> nat option" where
  "hex_val c =
     (if is_digit c then Some (of_char c - 48)
      else if c \<in> set ''abcdef'' then Some (of_char c - 87)
      else if c \<in> set ''ABCDEF'' then Some (of_char c - 55)
      else None)"

definition bad_text :: "string \<Rightarrow> error + 'a" where
  "bad_text s = Inl (SyntaxError (if s = [] then ''Unexpected end of JSON input'' else ''Unexpected token''))"

definition outside :: "error + 'a" where
  "outside = Inl (Error ''JSON text outside the fragment of the reference codec'')"

text \<open>
  The parser recurses on a counter that starts above the length of the text, so that the
  recursion is structural; every call consumes a character or hands the same text to a
  function that does.
\<close>

fun read_chars :: "nat \<Rightarrow> string \<Rightarrow> error + (string \<times> string)" where
  "read_chars 0 s = bad_text s"
| "read_chars (Suc n) s =
     (case s of
        [] \<Rightarrow> bad_text s
      | c # cs \<Rightarrow>
          if c = dquote then Inr ([], cs)
          else if c = backslash then
            (case cs of
               [] \<Rightarrow> bad_text cs
             | d # ds \<Rightarrow>
                 if d = CHR ''u'' then
                   (case map hex_val (take 4 ds) of
                      [Some a, Some b, Some x, Some y] \<Rightarrow>
                        if a = 0 \<and> b = 0 then
                          (case read_chars n (drop 4 ds) of
                             Inl e \<Rightarrow> Inl e
                           | Inr (str, r) \<Rightarrow> Inr (char_of (16 * x + y) # str, r))
                        else outside
                    | _ \<Rightarrow> bad_text ds)
                 else
                   (case unescape d of
                      None \<Rightarrow> bad_text cs
                    | Some ch \<Rightarrow>
                        (case read_chars n ds of
                           Inl e \<Rightarrow> Inl e
                         | Inr (str, r) \<Rightarrow> Inr (ch # str, r))))
          else if (of_char c :: nat) < 32 then bad_text s
          else
            (case read_chars n cs of
               Inl e \<Rightarrow> Inl e
             | Inr (str, r) \<Rightarrow> Inr (c # str, r)))"

definition read_string :: "string \<Rightarrow> error + (string \<times> string)" where
  "read_string s = read_chars (Suc (length s)) s"

text \<open>
  A number literal with a fraction or an exponent denotes a number that \<open>jsval\<close> does
  not have. \<^verbatim>\<open>JSON.parse\<close> returns that number; this parser refuses the text with
  an error of its own rather than return another value. No statement below parses such a
  text.
\<close>

definition read_number :: "string \<Rightarrow> error + (jsval \<times> string)" where
  "read_number s =
     (let neg = (s \<noteq> [] \<and> hd s = CHR ''-'');
          body = (if neg then tl s else s);
          ds = takeWhile is_digit body;
          r = dropWhile is_digit body
      in if ds = [] then bad_text body
         else if hd ds = CHR ''0'' \<and> tl ds \<noteq> [] then bad_text (tl ds)
         else if r \<noteq> [] \<and> hd r \<in> set ''.eE'' then outside
         else Inr (JNum (if neg then - read_digits ds else read_digits ds), r))"

text \<open>A repeated key keeps its first position and takes the last value.\<close>

fun put_member :: "string \<Rightarrow> jsval \<Rightarrow> (string \<times> jsval) list \<Rightarrow> (string \<times> jsval) list" where
  "put_member k v [] = [(k, v)]"
| "put_member k v (p # ps) = (if fst p = k then (k, v) # ps else p # put_member k v ps)"

fun parse_value :: "nat \<Rightarrow> string \<Rightarrow> error + (jsval \<times> string)"
  and parse_elements :: "nat \<Rightarrow> jsval list \<Rightarrow> string \<Rightarrow> error + (jsval \<times> string)"
  and parse_members :: "nat \<Rightarrow> (string \<times> jsval) list \<Rightarrow> string \<Rightarrow> error + (jsval \<times> string)" where
  "parse_value 0 s = bad_text []"
| "parse_value (Suc n) s =
     (case skip_ws s of
        [] \<Rightarrow> bad_text []
      | c # cs \<Rightarrow>
          if c = CHR ''{'' then
            (case skip_ws cs of
               [] \<Rightarrow> bad_text []
             | d # ds \<Rightarrow> if d = CHR ''}'' then Inr (JObj [], ds) else parse_members n [] (d # ds))
          else if c = CHR ''['' then
            (case skip_ws cs of
               [] \<Rightarrow> bad_text []
             | d # ds \<Rightarrow> if d = CHR '']'' then Inr (JArr [], ds) else parse_elements n [] (d # ds))
          else if c = dquote then
            (case read_string cs of Inl e \<Rightarrow> Inl e | Inr (str, r) \<Rightarrow> Inr (JStr str, r))
          else if c = CHR ''-'' \<or> is_digit c then read_number (c # cs)
          else if take 4 (c # cs) = ''null'' then Inr (JNull, drop 4 (c # cs))
          else if take 4 (c # cs) = ''true'' then Inr (JBool True, drop 4 (c # cs))
          else if take 5 (c # cs) = ''false'' then Inr (JBool False, drop 5 (c # cs))
          else bad_text (c # cs))"
| "parse_elements 0 acc s = bad_text []"
| "parse_elements (Suc n) acc s =
     (case parse_value n s of
        Inl e \<Rightarrow> Inl e
      | Inr (v, r) \<Rightarrow>
          (case skip_ws r of
             [] \<Rightarrow> bad_text []
           | d # ds \<Rightarrow>
               if d = CHR '','' then parse_elements n (acc @ [v]) ds
               else if d = CHR '']'' then Inr (JArr (acc @ [v]), ds)
               else bad_text (d # ds)))"
| "parse_members 0 acc s = bad_text []"
| "parse_members (Suc n) acc s =
     (case skip_ws s of
        [] \<Rightarrow> bad_text []
      | c # cs \<Rightarrow>
          if c \<noteq> dquote then bad_text (c # cs)
          else
            (case read_string cs of
               Inl e \<Rightarrow> Inl e
             | Inr (k, r) \<Rightarrow>
                 (case skip_ws r of
                    [] \<Rightarrow> bad_text []
                  | d # ds \<Rightarrow>
                      if d \<noteq> CHR '':'' then bad_text (d # ds)
                      else
                        (case parse_value n ds of
                           Inl e \<Rightarrow> Inl e
                         | Inr (v, r2) \<Rightarrow>
                             (case skip_ws r2 of
                                [] \<Rightarrow> bad_text []
                              | x # xs \<Rightarrow>
                                  if x = CHR '','' then parse_members n (put_member k v acc) xs
                                  else if x = CHR ''}'' then Inr (JObj (put_member k v acc), xs)
                                  else bad_text (x # xs))))))"

definition ref_parse :: "string \<Rightarrow> error + jsval" where
  "ref_parse s =
     (case parse_value (Suc (length s + length s)) s of
        Inl e \<Rightarrow> Inl e
      | Inr (v, r) \<Rightarrow> if skip_ws r = [] then Inr v else bad_text (skip_ws r))"

definition ref_codec :: codec where
  "ref_codec = \<lparr>stringify = ref_stringify, parse = ref_parse\<rparr>"

section \<open>Notions used in the statements\<close>

text \<open>
  The string that the observer writes for a value that is not \<^verbatim>\<open>null\<close> (lines 45 to
  50): the converter's \<^verbatim>\<open>toJson\<close> when there is a converter, then
  \<^verbatim>\<open>JSON.stringify\<close>, then the conversion of \<^verbatim>\<open>setItem\<close>. A value is encodable
  when none of these throws.
\<close>

definition stored_form :: "env \<Rightarrow> jsval \<Rightarrow> error + string" where
  "stored_form e v =
     (case converter e of
        None \<Rightarrow>
          (case stringify (JSON e) v of Inl err \<Rightarrow> Inl err | Inr s \<Rightarrow> Inr (ToString s))
      | Some c \<Rightarrow>
          (case toJson c v of
             Inl err \<Rightarrow> Inl err
           | Inr jsonValue \<Rightarrow>
               (case stringify (JSON e) jsonValue of
                  Inl err \<Rightarrow> Inl err
                | Inr s \<Rightarrow> Inr (ToString s))))"

text \<open>The items that the store calls of a stretch of the trace leave behind.\<close>

fun replay :: "event list \<Rightarrow> (string \<rightharpoonup> string) \<Rightarrow> (string \<rightharpoonup> string)" where
  "replay [] m = m"
| "replay (SetItem k s # es) m = replay es (m(k \<mapsto> s))"
| "replay (RemoveItem k # es) m = replay es (m(k := None))"
| "replay (ev # es) m = replay es m"

text \<open>
  A stretch of the trace in which every delivered value is followed by what belongs to it
  and by nothing else: the one removal for \<^verbatim>\<open>null\<close>; the one write of its stored
  form for a value that is encodable; no call on the store, and the report of the
  exception, for a value whose encoding throws. The stretch may end with the report of
  the exhausted stack, which no delivery precedes.
\<close>

fun accounted :: "env \<Rightarrow> event list \<Rightarrow> bool" where
  "accounted e [] = True"
| "accounted e [Unhandled err] = (err = stack_overflow)"
| "accounted e (Next v # SetItem k s # es) =
     (\<not> nullish v \<and> k = fullKey e \<and> stored_form e v = Inr s \<and> accounted e es)"
| "accounted e (Next v # RemoveItem k # es) = (nullish v \<and> k = fullKey e \<and> accounted e es)"
| "accounted e (Next v # Unhandled err # es) =
     (\<not> nullish v \<and> stored_form e v = Inl err \<and> accounted e es)"
| "accounted e es = False"

text \<open>The same closure with another \<^verbatim>\<open>JSON.parse\<close> and another \<^verbatim>\<open>fromJson\<close>.\<close>

definition with_decoder :: "(string \<Rightarrow> error + jsval) \<Rightarrow> (jsval \<Rightarrow> error + jsval) \<Rightarrow> env \<Rightarrow> env" where
  "with_decoder p f e =
     e\<lparr>JSON := (JSON e)\<lparr>parse := p\<rparr>,
       converter := map_option (\<lambda>c. c\<lparr>fromJson := f\<rparr>) (converter e)\<rparr>"







section \<open>Concrete inputs\<close>

text \<open>
  The scenario of the specification (key \<^verbatim>\<open>k\<close>, fallback \<^verbatim>\<open>d\<close>), the same with a
  \<^verbatim>\<open>null\<close> fallback, the bindings and the class of \<^verbatim>\<open>storage.spec.ts\<close>, and
  the binding of \<^verbatim>\<open>testKey2\<close> with a fallback whose date is a string, on which
  \<^verbatim>\<open>toJson\<close> throws.
\<close>

definition empty_storage :: Storage where
  "empty_storage = \<lparr>items = Map.empty, trace = []\<rparr>"

definition demo_env :: env where
  "demo_env =
     \<lparr>JSON = ref_codec, headroom = 10000, keyPrefix = STORAGE_KEYS_PREFIX, storageKey = ''k'',
      fallbackState = JStr ''d'', converter = None\<rparr>"


definition test_env :: env where
  "test_env =
     \<lparr>JSON = ref_codec, headroom = 10000, keyPrefix = STORAGE_KEYS_PREFIX,
      storageKey = ''testKey'',
      fallbackState = JStr ''defaultValue'', converter = None\<rparr>"

definition date_env :: env where
  "date_env =
     \<lparr>JSON = ref_codec, headroom = 10000, keyPrefix = STORAGE_KEYS_PREFIX,
      storageKey = ''testKey2'',
      fallbackState = JObj [(''date'', DEFAULT_DATE)],
      converter = Some (testkey2Converter (\<lambda>v. JInvalidDate))\<rparr>"

definition unencodable_env :: env where
  "unencodable_env = date_env\<lparr>fallbackState := JObj [(''date'', JStr ''2024-01-01'')]\<rparr>"






section \<open>The observer\<close>

lemma observer_value:
  "\<not> nullish v \<Longrightarrow>
   observer (Suc d) e v b =
     (case stored_form e v of
        Inl err \<Rightarrow> unhandled err (b\<lparr>trace := trace b @ [Next v]\<rparr>)
      | Inr s \<Rightarrow> setItem (fullKey e) s (b\<lparr>trace := trace b @ [Next v]\<rparr>))"
  by (auto simp: stored_form_def Let_def split: sum.splits option.splits)

lemma observer_null:
  "nullish v \<Longrightarrow>
   observer (Suc d) e v b =
     observer d e (fallbackState e)
       ((removeItem (fullKey e) (b\<lparr>trace := trace b @ [Next v]\<rparr>))\<lparr>cur := fallbackState e\<rparr>)"
  by (simp add: Let_def)

lemma observer_null_reset:
  assumes "nullish v" "\<not> nullish (fallbackState e)" "stored_form e (fallbackState e) = Inr s"
  shows "observer (Suc (Suc d)) e v b =
           b\<lparr>items := (items b)(fullKey e \<mapsto> s),
             trace := trace b @ [Next v, RemoveItem (fullKey e), Next (fallbackState e), SetItem (fullKey e) s],
             cur := fallbackState e\<rparr>"
  using assms
  by (simp add: observer_null observer_value setItem_def removeItem_def del: observer.simps)

lemma observer_null_unencodable:
  assumes "nullish v" "\<not> nullish (fallbackState e)" "stored_form e (fallbackState e) = Inl err"
  shows "observer (Suc (Suc d)) e v b =
           b\<lparr>items := (items b)(fullKey e := None),
             trace := trace b @ [Next v, RemoveItem (fullKey e), Next (fallbackState e), Unhandled err],
             cur := fallbackState e\<rparr>"
  using assms
  by (simp add: observer_null observer_value unhandled_def removeItem_def del: observer.simps)


lemma subject_next_value:
  assumes "\<not> nullish v" "stored_form e v = Inr s"
  shows "subject_next e v b =
           b\<lparr>items := (items b)(fullKey e \<mapsto> s),
             trace := trace b @ [Next v, SetItem (fullKey e) s],
             cur := v\<rparr>"
  using assms by (simp add: subject_next_def depth_def observer_value setItem_def del: observer.simps)

lemma subject_next_unencodable:
  assumes "\<not> nullish v" "stored_form e v = Inl err"
  shows "subject_next e v b = b\<lparr>trace := trace b @ [Next v, Unhandled err], cur := v\<rparr>"
  using assms by (simp add: subject_next_def depth_def observer_value unhandled_def del: observer.simps)

lemma subject_next_null:
  assumes "nullish v" "\<not> nullish (fallbackState e)" "stored_form e (fallbackState e) = Inr s"
  shows "subject_next e v b =
           b\<lparr>items := (items b)(fullKey e \<mapsto> s),
             trace := trace b @ [Next v, RemoveItem (fullKey e), Next (fallbackState e), SetItem (fullKey e) s],
             cur := fallbackState e\<rparr>"
  using assms by (simp add: subject_next_def depth_def observer_null_reset del: observer.simps)

lemma subject_next_null_unencodable:
  assumes "nullish v" "\<not> nullish (fallbackState e)" "stored_form e (fallbackState e) = Inl err"
  shows "subject_next e v b =
           b\<lparr>items := (items b)(fullKey e := None),
             trace := trace b @ [Next v, RemoveItem (fullKey e), Next (fallbackState e), Unhandled err],
             cur := fallbackState e\<rparr>"
  using assms by (simp add: subject_next_def depth_def observer_null_unencodable del: observer.simps)


lemma storageFactory_start:
  assumes "storageKey e \<noteq> []" "initialValue e (items st (fullKey e)) = Inr v"
  shows "storageFactory e st =
           Returned
             (observer (depth e) e v
                \<lparr>items = items st, trace = trace st @ [GetItem (fullKey e)], cur = v\<rparr>)"
  using assms by (simp add: storageFactory_def getItem_def)

text \<open>Every delivery is accounted for, and the items are what the store calls leave.\<close>

lemma observer_accounted:
  "\<exists>es. trace (observer (Suc d) e v b) = trace b @ Next v # es \<and>
         accounted e (Next v # es) \<and>
         items (observer (Suc d) e v b) = replay (Next v # es) (items b)"
proof (induction d arbitrary: v b)
  case 0
  show ?case
  proof (cases "nullish v")
    case True
    then show ?thesis
      by (simp add: observer_null unhandled_def removeItem_def fun_upd_def del: observer.simps(2))
  next
    case False
    show ?thesis
    proof (cases "stored_form e v")
      case (Inl err)
      with False show ?thesis
        by (simp add: observer_value unhandled_def del: observer.simps)
    next
      case (Inr s)
      with False show ?thesis
        by (simp add: observer_value setItem_def fun_upd_def del: observer.simps)
    qed
  qed
next
  case (Suc d)
  show ?case
  proof (cases "nullish v")
    case True
    let ?b1 = "(removeItem (fullKey e) (b\<lparr>trace := trace b @ [Next v]\<rparr>))\<lparr>cur := fallbackState e\<rparr>"
    from Suc.IH [of "fallbackState e" ?b1] obtain es where
      es: "trace (observer (Suc d) e (fallbackState e) ?b1) = trace ?b1 @ Next (fallbackState e) # es"
        "accounted e (Next (fallbackState e) # es)"
        "items (observer (Suc d) e (fallbackState e) ?b1) = replay (Next (fallbackState e) # es) (items ?b1)"
      by blast
    have "observer (Suc (Suc d)) e v b = observer (Suc d) e (fallbackState e) ?b1"
      using True by (rule observer_null)
    with es True show ?thesis
      by (intro exI [of _ "RemoveItem (fullKey e) # Next (fallbackState e) # es"])
         (simp add: removeItem_def fun_upd_def del: observer.simps)
  next
    case False
    show ?thesis
    proof (cases "stored_form e v")
      case (Inl err)
      with False show ?thesis
        by (simp add: observer_value unhandled_def del: observer.simps)
    next
      case (Inr s)
      with False show ?thesis
        by (simp add: observer_value setItem_def fun_upd_def del: observer.simps)
    qed
  qed
qed

lemma fullKey_fallback [simp]: "fullKey (e\<lparr>fallbackState := fb\<rparr>) = fullKey e"
  by (simp add: fullKey_def)

lemma depth_fallback [simp]: "depth (e\<lparr>fallbackState := fb\<rparr>) = depth e"
  by (simp add: depth_def)

lemma stored_form_fallback [simp]: "stored_form (e\<lparr>fallbackState := fb\<rparr>) v = stored_form e v"
  by (simp add: stored_form_def split: option.splits sum.splits)

text \<open>
  Publishing a value and then building a fresh binding on the same store, prefix and key
  gives the value back, as soon as the decoder inverts the encoder on it.
\<close>

lemma roundtrip:
  assumes key: "storageKey e \<noteq> []"
    and v: "\<not> nullish v"
    and enc: "stored_form e v = Inr s"
    and s: "s \<noteq> []"
    and dec: "initialValue (e\<lparr>fallbackState := fb\<rparr>) (Some s) = Inr v"
  shows "\<exists>b2. storageFactory (e\<lparr>fallbackState := fb\<rparr>) (storage_of (subject_next e v b)) = Returned b2 \<and>
           cur b2 = v"
proof -
  let ?b1 = "b\<lparr>items := (items b)(fullKey e \<mapsto> s),
               trace := trace b @ [Next v, SetItem (fullKey e) s], cur := v\<rparr>"
  let ?e = "e\<lparr>fallbackState := fb\<rparr>"
  have 1: "subject_next e v b = ?b1"
    using v enc by (rule subject_next_value)
  have "items (storage_of ?b1) (fullKey ?e) = Some s"
    by (simp add: storage_of_def)
  with dec have "initialValue ?e (items (storage_of ?b1) (fullKey ?e)) = Inr v"
    by simp
  moreover have "storageKey ?e \<noteq> []" using key by simp
  ultimately have "storageFactory ?e (storage_of ?b1) =
      Returned
        (observer (depth ?e) ?e v \<lparr>items = items (storage_of ?b1),
           trace = trace (storage_of ?b1) @ [GetItem (fullKey ?e)], cur = v\<rparr>)"
    by (rule storageFactory_start [rotated])
  then have "\<exists>b2. storageFactory ?e (storage_of ?b1) = Returned b2 \<and> cur b2 = v"
    using v enc by (simp add: depth_def observer_value setItem_def del: observer.simps)
  with 1 show ?thesis by simp
qed

text \<open>The observer never decodes: its result does not depend on the decoder.\<close>

lemma observer_decoder_free:
  "observer d (with_decoder p f e) v b = observer d e v b"
proof (induction d arbitrary: v b)
  case 0
  show ?case by simp
next
  case (Suc d)
  have fk: "fullKey (with_decoder p f e) = fullKey e"
    and fb: "fallbackState (with_decoder p f e) = fallbackState e"
    and sf: "stored_form (with_decoder p f e) v = stored_form e v"
    by (auto simp: with_decoder_def fullKey_def stored_form_def split: option.splits sum.splits)
  show ?case
  proof (cases "nullish v")
    case True
    then show ?thesis by (simp add: observer_null fk fb Suc.IH del: observer.simps)
  next
    case False
    then show ?thesis by (simp add: observer_value fk sf del: observer.simps split: sum.splits)
  qed
qed

lemma subject_next_decoder_free: "subject_next (with_decoder p f e) v b = subject_next e v b"
proof -
  have "depth (with_decoder p f e) = depth e" by (simp add: with_decoder_def depth_def)
  then show ?thesis by (simp add: subject_next_def observer_decoder_free del: observer.simps)
qed



section \<open>The decorators: one subject, one getter\<close>







section \<open>The reference codec on the concrete inputs\<close>

lemmas ref_text_simps =
  ref_codec_def ref_stringify_def show_int_def show_nat.simps quote_def escape_def
  digit_char_def dquote_def backslash_def

lemmas ref_parse_simps =
  ref_parse_def skip_ws_def is_ws_def is_digit_def read_number_def read_digits_def
  read_string_def bad_text_def unescape_def Let_def

lemma demo_stored_d: "stored_form demo_env (JStr ''d'') = Inr (dquote # ''d'' @ [dquote])"
  by (simp add: stored_form_def demo_env_def ref_text_simps)

lemma test_stored_default:
  "stored_form test_env (JStr ''defaultValue'') = Inr (dquote # ''defaultValue'' @ [dquote])"
  by (simp add: stored_form_def test_env_def ref_text_simps)


lemma ref_text_x: "stringify (JSON demo_env) (JStr ''x'') = Inr (Some (dquote # ''x'' @ [dquote]))"
  by (simp add: demo_env_def ref_text_simps)

lemma ref_parse_x: "parse (JSON demo_env) (dquote # ''x'' @ [dquote]) = Inr (JStr ''x'')"
  by (simp add: demo_env_def ref_text_simps ref_parse_simps)

lemma ref_text_date:
  "stringify (JSON date_env) (JObj [(''date'', JNum 1718000000123)]) =
     Inr (Some (CHR ''{'' # dquote # ''date'' @ dquote # '':1718000000123}''))"
  by (simp add: date_env_def ref_text_simps)

lemma ref_parse_date:
  "parse (JSON date_env) (CHR ''{'' # dquote # ''date'' @ dquote # '':1718000000123}'') =
     Inr (JObj [(''date'', JNum 1718000000123)])"
  by (simp add: date_env_def ref_text_simps ref_parse_simps)

lemma ref_text_nan:
  "stored_form date_env (JObj [(''date'', JInvalidDate)]) =
     Inr (CHR ''{'' # dquote # ''date'' @ dquote # '':null}'')"
  by (simp add: stored_form_def date_env_def testkey2Converter_def ref_text_simps)

lemma ref_parse_null_date:
  "initialValue date_env (Some (CHR ''{'' # dquote # ''date'' @ dquote # '':null}'')) =
     Inr (JObj [(''date'', JDate 0)])"
  by (simp add: initialValue_def date_env_def testkey2Converter_def ref_text_simps ref_parse_simps)

lemma ref_text_epoch:
  "stored_form date_env (JObj [(''date'', JDate 0)]) =
     Inr (CHR ''{'' # dquote # ''date'' @ dquote # '':0}'')"
  by (simp add: stored_form_def date_env_def testkey2Converter_def ref_text_simps)

lemma date_stored_string:
  "stored_form date_env (JObj [(''date'', JStr ''2024-01-01'')]) =
     Inl (TypeError ''getTime is not a function'')"
  by (simp add: stored_form_def date_env_def testkey2Converter_def)

lemma unencodable_fallback:
  "stored_form unencodable_env (fallbackState unencodable_env) =
     Inl (TypeError ''getTime is not a function'')"
  by (simp add: stored_form_def unencodable_env_def date_env_def testkey2Converter_def)

lemma ref_parse_bad: "parse (JSON demo_env) ''{bad'' = Inl (SyntaxError ''Unexpected token'')"
  by (simp add: demo_env_def ref_text_simps ref_parse_simps)

lemma ref_parse_empty: "parse (JSON demo_env) [] = Inl (SyntaxError ''Unexpected end of JSON input'')"
  by (simp add: demo_env_def ref_text_simps ref_parse_simps)








section \<open>The claims\<close>

text \<open>
  Claim C1, as the code has it. For every non-empty key and every encodable fallback
  other than \<^verbatim>\<open>null\<close> and \<^verbatim>\<open>undefined\<close>, building a binding on a store that has
  no entry at the namespaced key returns a container whose current value is the fallback.
  Building it reads the store once and then writes the stored form of the fallback at the
  namespaced key: the fallback is delivered to the write-back observer when the observer
  subscribes. There is one write and no removal.
\<close>

theorem construct_writes_fallback:
  assumes "storageKey e \<noteq> []"
    and "items st (fullKey e) = None"
    and "\<not> nullish (fallbackState e)"
    and "stored_form e (fallbackState e) = Inr s"
  shows "storageFactory e st =
           Returned
             \<lparr>items = (items st)(fullKey e \<mapsto> s),
              trace = trace st @ [GetItem (fullKey e), Next (fallbackState e), SetItem (fullKey e) s],
              cur = fallbackState e\<rparr>"
proof -
  have "initialValue e (items st (fullKey e)) = Inr (fallbackState e)"
    using assms(2) by (simp add: initialValue_def)
  then show ?thesis
    using assms
    by (simp add: storageFactory_start depth_def observer_value setItem_def del: observer.simps)
qed

theorem construct_writes_fallback_witness:
  "storageKey demo_env \<noteq> [] \<and> items empty_storage (fullKey demo_env) = None \<and>
   \<not> nullish (fallbackState demo_env) \<and>
   stored_form demo_env (fallbackState demo_env) = Inr (dquote # ''d'' @ [dquote]) \<and>
   storageFactory demo_env empty_storage =
     Returned
       \<lparr>items = (items empty_storage)(fullKey demo_env \<mapsto> dquote # ''d'' @ [dquote]),
        trace = trace empty_storage @
          [GetItem (fullKey demo_env), Next (fallbackState demo_env),
           SetItem (fullKey demo_env) (dquote # ''d'' @ [dquote])],
        cur = fallbackState demo_env\<rparr>"
proof -
  have k: "storageKey demo_env \<noteq> []" by (simp add: demo_env_def)
  have a: "items empty_storage (fullKey demo_env) = None" by (simp add: empty_storage_def)
  have n: "\<not> nullish (fallbackState demo_env)" by (simp add: demo_env_def)
  have s: "stored_form demo_env (fallbackState demo_env) = Inr (dquote # ''d'' @ [dquote])"
    using demo_stored_d by (simp add: demo_env_def)
  from construct_writes_fallback [OF k a n s] k a n s show ?thesis by blast
qed

text \<open>
  Claim C1 as it is stated says that construction only reads the store. On the empty
  store, with key \<^verbatim>\<open>k\<close> and fallback \<^verbatim>\<open>d\<close>, construction writes the text of
  \<^verbatim>\<open>d\<close> at \<^verbatim>\<open>rca_k\<close>.
\<close>

theorem construct_only_reads_counterexample:
  "storageFactory demo_env empty_storage =
     Returned
       \<lparr>items = [''rca_k'' \<mapsto> dquote # ''d'' @ [dquote]],
        trace = [GetItem ''rca_k'', Next (JStr ''d''), SetItem ''rca_k'' (dquote # ''d'' @ [dquote])],
        cur = JStr ''d''\<rparr>"
proof -
  have "initialValue demo_env (items empty_storage (fullKey demo_env)) = Inr (JStr ''d'')"
    by (simp add: initialValue_def empty_storage_def demo_env_def)
  moreover have "storageKey demo_env \<noteq> []" by (simp add: demo_env_def)
  ultimately show ?thesis
    by (simp add: storageFactory_start depth_def observer_value demo_stored_d setItem_def
             del: observer.simps)
       (simp add: demo_env_def fullKey_def empty_storage_def STORAGE_KEYS_PREFIX_def)
qed

text \<open>
  Claim C2, as the code has it. For every binding whose fallback is encodable and is not
  \<^verbatim>\<open>null\<close> or \<^verbatim>\<open>undefined\<close>, publishing \<^verbatim>\<open>null\<close> (or \<^verbatim>\<open>undefined\<close>) returns
  with the fallback as the container's current value; the entry at the namespaced key is
  removed during the publish, and when the publish returns the store holds the stored form
  of the fallback there.
\<close>

theorem publish_null_resets:
  assumes "nullish v"
    and "\<not> nullish (fallbackState e)"
    and "stored_form e (fallbackState e) = Inr s"
  shows "cur (subject_next e v b) = fallbackState e \<and>
         RemoveItem (fullKey e) \<in> set (drop (length (trace b)) (trace (subject_next e v b))) \<and>
         items (subject_next e v b) (fullKey e) = Some s"
  using assms by (simp add: subject_next_null)

theorem publish_null_resets_witness:
  "nullish JNull \<and> \<not> nullish (fallbackState demo_env) \<and>
   stored_form demo_env (fallbackState demo_env) = Inr (dquote # ''d'' @ [dquote]) \<and>
   cur (subject_next demo_env JNull \<lparr>items = Map.empty, trace = [], cur = JStr ''x''\<rparr>) =
     fallbackState demo_env \<and>
   RemoveItem (fullKey demo_env) \<in>
     set (drop (length (trace \<lparr>items = Map.empty, trace = [], cur = JStr ''x''\<rparr>))
            (trace (subject_next demo_env JNull \<lparr>items = Map.empty, trace = [], cur = JStr ''x''\<rparr>))) \<and>
   items (subject_next demo_env JNull \<lparr>items = Map.empty, trace = [], cur = JStr ''x''\<rparr>)
     (fullKey demo_env) = Some (dquote # ''d'' @ [dquote])"
proof -
  have n: "nullish JNull" by simp
  have f: "\<not> nullish (fallbackState demo_env)" by (simp add: demo_env_def)
  have s: "stored_form demo_env (fallbackState demo_env) = Inr (dquote # ''d'' @ [dquote])"
    using demo_stored_d by (simp add: demo_env_def)
  from publish_null_resets [OF n f s] n f s show ?thesis by blast
qed

text \<open>
  Claim C2 as it is stated says that the store holds no entry when the publish returns.
  After \<^verbatim>\<open>x\<close> was published in the scenario of the specification, publishing
  \<^verbatim>\<open>null\<close> leaves the text of \<^verbatim>\<open>d\<close> at \<^verbatim>\<open>rca_k\<close>.
\<close>

theorem publish_null_entry_removed_counterexample:
  "subject_next demo_env JNull
     \<lparr>items = [''rca_k'' \<mapsto> dquote # ''x'' @ [dquote]], trace = [], cur = JStr ''x''\<rparr> =
   \<lparr>items = [''rca_k'' \<mapsto> dquote # ''d'' @ [dquote]],
    trace = [Next JNull, RemoveItem ''rca_k'', Next (JStr ''d''),
             SetItem ''rca_k'' (dquote # ''d'' @ [dquote])],
    cur = JStr ''d''\<rparr>"
proof -
  have "stored_form demo_env (fallbackState demo_env) = Inr (dquote # ''d'' @ [dquote])"
    using demo_stored_d by (simp add: demo_env_def)
  moreover have "\<not> nullish (fallbackState demo_env)" by (simp add: demo_env_def)
  ultimately show ?thesis
    by (simp add: subject_next_null)
       (simp add: demo_env_def fullKey_def STORAGE_KEYS_PREFIX_def)
qed




text \<open>
  Claim C4, as the code has it. Every value delivered to the write-back observer, by a
  publish or as the initial value of a binding under construction, is followed before the
  call returns by exactly one call on the store when its encoding does not throw (a
  removal when the value is \<^verbatim>\<open>null\<close> or \<^verbatim>\<open>undefined\<close>, a write of its stored
  form otherwise) and by no call on the store when its encoding throws; the exception is
  then reported by rxjs. The items of the store after the call are those that the calls
  in the trace leave. The first value delivered is the one published, and at construction
  the initial value, after the one read of the store.
\<close>

theorem one_store_call_per_value:
  "(\<exists>es. trace (subject_next e v b) = trace b @ Next v # es \<and>
         accounted e (Next v # es) \<and>
         items (subject_next e v b) = replay (Next v # es) (items b)) \<and>
   (storageKey e \<noteq> [] \<and> initialValue e (items st (fullKey e)) = Inr v0 \<longrightarrow>
      (\<exists>b' es. storageFactory e st = Returned b' \<and>
         trace b' = trace st @ GetItem (fullKey e) # Next v0 # es \<and>
         accounted e (Next v0 # es) \<and>
         items b' = replay (Next v0 # es) (items st)))"
proof (intro conjI impI)
  from observer_accounted [of "Suc (headroom e)" e v "b\<lparr>cur := v\<rparr>"]
  show "\<exists>es. trace (subject_next e v b) = trace b @ Next v # es \<and>
         accounted e (Next v # es) \<and>
         items (subject_next e v b) = replay (Next v # es) (items b)"
    by (simp add: subject_next_def depth_def del: observer.simps)
next
  assume a: "storageKey e \<noteq> [] \<and> initialValue e (items st (fullKey e)) = Inr v0"
  let ?b = "\<lparr>items = items st, trace = trace st @ [GetItem (fullKey e)], cur = v0\<rparr>"
  from observer_accounted [of "Suc (headroom e)" e v0 ?b] obtain es where
    "trace (observer (depth e) e v0 ?b) = trace ?b @ Next v0 # es"
    "accounted e (Next v0 # es)"
    "items (observer (depth e) e v0 ?b) = replay (Next v0 # es) (items ?b)"
    by (auto simp: depth_def simp del: observer.simps)
  with a show "\<exists>b' es. storageFactory e st = Returned b' \<and>
         trace b' = trace st @ GetItem (fullKey e) # Next v0 # es \<and>
         accounted e (Next v0 # es) \<and>
         items b' = replay (Next v0 # es) (items st)"
    by (simp add: storageFactory_start del: observer.simps)
qed

theorem one_store_call_per_value_witness:
  "(\<exists>es. trace (subject_next demo_env JNull \<lparr>items = Map.empty, trace = [], cur = JStr ''x''\<rparr>) =
           trace \<lparr>items = Map.empty, trace = [], cur = JStr ''x''\<rparr> @ Next JNull # es \<and>
         accounted demo_env (Next JNull # es) \<and>
         items (subject_next demo_env JNull \<lparr>items = Map.empty, trace = [], cur = JStr ''x''\<rparr>) =
           replay (Next JNull # es) (items \<lparr>items = Map.empty, trace = [], cur = JStr ''x''\<rparr>)) \<and>
   storageKey demo_env \<noteq> [] \<and>
   initialValue demo_env (items empty_storage (fullKey demo_env)) = Inr (JStr ''d'') \<and>
   (\<exists>b' es. storageFactory demo_env empty_storage = Returned b' \<and>
      trace b' = trace empty_storage @ GetItem (fullKey demo_env) # Next (JStr ''d'') # es \<and>
      accounted demo_env (Next (JStr ''d'') # es) \<and>
      items b' = replay (Next (JStr ''d'') # es) (items empty_storage))"
proof -
  have k: "storageKey demo_env \<noteq> []" by (simp add: demo_env_def)
  have i: "initialValue demo_env (items empty_storage (fullKey demo_env)) = Inr (JStr ''d'')"
    by (simp add: initialValue_def empty_storage_def demo_env_def)
  from one_store_call_per_value
         [of demo_env JNull "\<lparr>items = Map.empty, trace = [], cur = JStr ''x''\<rparr>"
             empty_storage "JStr ''d''"]
       k i
  show ?thesis by blast
qed

text \<open>
  Claim C4 as it is stated speaks of every value published. With the converter of the
  tests, a published object whose date is a string is delivered, \<^verbatim>\<open>toJson\<close> throws
  on it, and no call is made on the store.
\<close>

theorem unencodable_value_counterexample:
  "subject_next date_env (JObj [(''date'', JStr ''2024-01-01'')])
     \<lparr>items = Map.empty, trace = [], cur = JObj [(''date'', DEFAULT_DATE)]\<rparr> =
   \<lparr>items = Map.empty,
    trace = [Next (JObj [(''date'', JStr ''2024-01-01'')]),
             Unhandled (TypeError ''getTime is not a function'')],
    cur = JObj [(''date'', JStr ''2024-01-01'')]\<rparr>"
  by (simp add: subject_next_unencodable [OF _ date_stored_string])

text \<open>
  Claim C5. Without a converter, for every value other than \<^verbatim>\<open>null\<close> and
  \<^verbatim>\<open>undefined\<close> that the codec encodes as a text from which it decodes the value
  again, publishing the value and then building a fresh binding on the same store, prefix
  and key returns a container whose initial current value is the value. The text is not
  empty, as no JSON text is.
\<close>

theorem roundtrip_without_converter:
  assumes "storageKey e \<noteq> []"
    and "converter e = None"
    and "\<not> nullish v"
    and "stringify (JSON e) v = Inr (Some s)"
    and "s \<noteq> []"
    and "parse (JSON e) s = Inr v"
  shows "\<exists>b2. storageFactory (e\<lparr>fallbackState := fb\<rparr>) (storage_of (subject_next e v b)) = Returned b2 \<and>
           cur b2 = v"
proof (rule roundtrip)
  show "stored_form e v = Inr s" using assms by (simp add: stored_form_def)
  show "initialValue (e\<lparr>fallbackState := fb\<rparr>) (Some s) = Inr v"
    using assms by (simp add: initialValue_def)
qed (use assms in simp_all)

theorem roundtrip_without_converter_witness:
  "storageKey demo_env \<noteq> [] \<and> converter demo_env = None \<and> \<not> nullish (JStr ''x'') \<and>
   stringify (JSON demo_env) (JStr ''x'') = Inr (Some (dquote # ''x'' @ [dquote])) \<and>
   dquote # ''x'' @ [dquote] \<noteq> [] \<and>
   parse (JSON demo_env) (dquote # ''x'' @ [dquote]) = Inr (JStr ''x'') \<and>
   (\<exists>b2. storageFactory (demo_env\<lparr>fallbackState := JStr ''other''\<rparr>)
            (storage_of (subject_next demo_env (JStr ''x'')
                           \<lparr>items = Map.empty, trace = [], cur = JStr ''d''\<rparr>)) = Returned b2 \<and>
      cur b2 = JStr ''x'')"
proof -
  have k: "storageKey demo_env \<noteq> []" and c: "converter demo_env = None"
    by (simp_all add: demo_env_def)
  have n: "\<not> nullish (JStr ''x'')" by simp
  have e: "dquote # ''x'' @ [dquote] \<noteq> []" by simp
  from roundtrip_without_converter [OF k c n ref_text_x e ref_parse_x] k c n e ref_text_x ref_parse_x
  show ?thesis by blast
qed

text \<open>
  Claim C6, as the code has it. With the converter of the tests, for every valid date
  \<open>D\<close> with time value \<open>t\<close>, publishing \<^verbatim>\<open>{date: D}\<close> and then building a fresh
  binding on the same store, prefix, key and converter returns a container whose initial
  current value is \<^verbatim>\<open>{date: D}\<close>, to the millisecond. The codec is one that decodes
  the text of \<^verbatim>\<open>{date: t}\<close> back to \<^verbatim>\<open>{date: t}\<close>.
\<close>

theorem roundtrip_date_converter:
  assumes "storageKey e \<noteq> []"
    and "converter e = Some (testkey2Converter P)"
    and "\<bar>t\<bar> \<le> 8640000000000000"
    and "stringify (JSON e) (JObj [(''date'', JNum t)]) = Inr (Some s)"
    and "s \<noteq> []"
    and "parse (JSON e) s = Inr (JObj [(''date'', JNum t)])"
  shows "\<exists>b2. storageFactory (e\<lparr>fallbackState := fb\<rparr>)
                 (storage_of (subject_next e (JObj [(''date'', JDate t)]) b)) = Returned b2 \<and>
           cur b2 = JObj [(''date'', JDate t)]"
proof (rule roundtrip)
  show "stored_form e (JObj [(''date'', JDate t)]) = Inr s"
    using assms by (simp add: stored_form_def testkey2Converter_def)
  show "initialValue (e\<lparr>fallbackState := fb\<rparr>) (Some s) = Inr (JObj [(''date'', JDate t)])"
    using assms by (simp add: initialValue_def testkey2Converter_def TimeClip_def)
qed (use assms in simp_all)

theorem roundtrip_date_converter_witness:
  "storageKey date_env \<noteq> [] \<and>
   converter date_env = Some (testkey2Converter (\<lambda>v. JInvalidDate)) \<and>
   \<bar>1718000000123\<bar> \<le> (8640000000000000 :: int) \<and>
   stringify (JSON date_env) (JObj [(''date'', JNum 1718000000123)]) =
     Inr (Some (CHR ''{'' # dquote # ''date'' @ dquote # '':1718000000123}'')) \<and>
   CHR ''{'' # dquote # ''date'' @ dquote # '':1718000000123}'' \<noteq> [] \<and>
   parse (JSON date_env) (CHR ''{'' # dquote # ''date'' @ dquote # '':1718000000123}'') =
     Inr (JObj [(''date'', JNum 1718000000123)]) \<and>
   (\<exists>b2. storageFactory (date_env\<lparr>fallbackState := JObj [(''date'', DEFAULT_DATE)]\<rparr>)
            (storage_of (subject_next date_env (JObj [(''date'', JDate 1718000000123)])
               \<lparr>items = Map.empty, trace = [], cur = JObj [(''date'', DEFAULT_DATE)]\<rparr>)) =
          Returned b2 \<and>
      cur b2 = JObj [(''date'', JDate 1718000000123)])"
proof -
  have k: "storageKey date_env \<noteq> []"
    and c: "converter date_env = Some (testkey2Converter (\<lambda>v. JInvalidDate))"
    by (simp_all add: date_env_def)
  have t: "\<bar>1718000000123\<bar> \<le> (8640000000000000 :: int)" by simp
  have e: "CHR ''{'' # dquote # ''date'' @ dquote # '':1718000000123}'' \<noteq> []" by simp
  from roundtrip_date_converter [OF k c t ref_text_date e ref_parse_date]
       k c t e ref_text_date ref_parse_date
  show ?thesis by blast
qed

text \<open>
  Claim C6 as it is stated speaks of every date. The time value of an invalid date is
  \<^verbatim>\<open>NaN\<close>, whose JSON text is \<^verbatim>\<open>null\<close>, and \<^verbatim>\<open>new Date(null)\<close> is the
  epoch: the fresh binding holds the first of January 1970.
\<close>

theorem invalid_date_counterexample:
  "storageFactory date_env
     (storage_of (subject_next date_env (JObj [(''date'', JInvalidDate)])
        \<lparr>items = Map.empty, trace = [], cur = JObj [(''date'', DEFAULT_DATE)]\<rparr>)) =
   Returned
     \<lparr>items = [''rca_testKey2'' \<mapsto> CHR ''{'' # dquote # ''date'' @ dquote # '':0}''],
      trace = [Next (JObj [(''date'', JInvalidDate)]),
               SetItem ''rca_testKey2'' (CHR ''{'' # dquote # ''date'' @ dquote # '':null}''),
               GetItem ''rca_testKey2'',
               Next (JObj [(''date'', JDate 0)]),
               SetItem ''rca_testKey2'' (CHR ''{'' # dquote # ''date'' @ dquote # '':0}'')],
      cur = JObj [(''date'', JDate 0)]\<rparr>"
proof -
  let ?b1 = "\<lparr>items = [fullKey date_env \<mapsto> CHR ''{'' # dquote # ''date'' @ dquote # '':null}''],
              trace = [Next (JObj [(''date'', JInvalidDate)]),
                       SetItem (fullKey date_env) (CHR ''{'' # dquote # ''date'' @ dquote # '':null}'')],
              cur = JObj [(''date'', JInvalidDate)]\<rparr>"
  have 1: "subject_next date_env (JObj [(''date'', JInvalidDate)])
             \<lparr>items = Map.empty, trace = [], cur = JObj [(''date'', DEFAULT_DATE)]\<rparr> = ?b1"
    by (simp add: subject_next_value [OF _ ref_text_nan])
  have k: "storageKey date_env \<noteq> []" by (simp add: date_env_def)
  have i: "initialValue date_env (items (storage_of ?b1) (fullKey date_env)) =
             Inr (JObj [(''date'', JDate 0)])"
    using ref_parse_null_date by (simp add: storage_of_def)
  have "storageFactory date_env (storage_of ?b1) =
          Returned
            \<lparr>items = [fullKey date_env \<mapsto> CHR ''{'' # dquote # ''date'' @ dquote # '':0}''],
             trace = [Next (JObj [(''date'', JInvalidDate)]),
                      SetItem (fullKey date_env) (CHR ''{'' # dquote # ''date'' @ dquote # '':null}''),
                      GetItem (fullKey date_env),
                      Next (JObj [(''date'', JDate 0)]),
                      SetItem (fullKey date_env) (CHR ''{'' # dquote # ''date'' @ dquote # '':0}'')],
             cur = JObj [(''date'', JDate 0)]\<rparr>"
    by (subst storageFactory_start [OF k i])
       (simp add: depth_def observer_value ref_text_epoch setItem_def storage_of_def
             del: observer.simps)
  moreover have "fullKey date_env = ''rca_testKey2''"
    by (simp add: date_env_def fullKey_def STORAGE_KEYS_PREFIX_def)
  ultimately show ?thesis using 1 by simp
qed

text \<open>
  Claim C7. Building a binding with the empty string as key throws an error whose message
  quotes the key, and the storage is left as it was, with nothing added to its trace: no
  read, no write, no removal.
\<close>

theorem empty_key_rejected:
  "storageFactory (e\<lparr>storageKey := []\<rparr>) st = Threw (Error (key_message [])) st \<and>
   key_message [] =
     dquote # ''storageKey'' @ dquote # '' must be a nonempty string, but '' @
     dquote # dquote # '' was passed.''"
  by (simp add: storageFactory_def key_message_def)

theorem empty_key_rejected_witness:
  "storageFactory (demo_env\<lparr>storageKey := []\<rparr>) empty_storage =
     Threw (Error (key_message [])) empty_storage \<and>
   key_message [] =
     dquote # ''storageKey'' @ dquote # '' must be a nonempty string, but '' @
     dquote # dquote # '' was passed.''"
  by (rule empty_key_rejected)

text \<open>
  Claim C8, as the code has it. For every non-empty string stored at the namespaced key
  that \<^verbatim>\<open>JSON.parse\<close> rejects, or that it accepts while the converter's
  \<^verbatim>\<open>fromJson\<close> throws on the result, building the binding throws that error to the
  caller after the one read of the store: no container is returned and nothing is written.
  Decoding happens nowhere else: a publish gives the same result whatever the decoder.
\<close>

theorem decode_error_propagates:
  assumes "storageKey e \<noteq> []"
    and "items st (fullKey e) = Some s"
    and "s \<noteq> []"
    and "parse (JSON e) s = Inl err \<or>
         (\<exists>c p. converter e = Some c \<and> parse (JSON e) s = Inr p \<and> fromJson c p = Inl err)"
  shows "storageFactory e st = Threw err (st\<lparr>trace := trace st @ [GetItem (fullKey e)]\<rparr>) \<and>
         subject_next (with_decoder p' f' e) v b = subject_next e v b"
proof -
  have "initialValue e (Some s) = Inl err"
    using assms(3,4) by (auto simp: initialValue_def)
  then show ?thesis
    using assms(1,2) by (simp add: storageFactory_def getItem_def subject_next_decoder_free)
qed

theorem decode_error_propagates_witness:
  "storageKey demo_env \<noteq> [] \<and>
   items \<lparr>items = [''rca_k'' \<mapsto> ''{bad''], trace = []\<rparr> (fullKey demo_env) = Some ''{bad'' \<and>
   ''{bad'' \<noteq> [] \<and>
   parse (JSON demo_env) ''{bad'' = Inl (SyntaxError ''Unexpected token'') \<and>
   storageFactory demo_env \<lparr>items = [''rca_k'' \<mapsto> ''{bad''], trace = []\<rparr> =
     Threw (SyntaxError ''Unexpected token'')
       (\<lparr>items = [''rca_k'' \<mapsto> ''{bad''], trace = []\<rparr>
          \<lparr>trace := trace \<lparr>items = [''rca_k'' \<mapsto> ''{bad''], trace = []\<rparr> @
                      [GetItem (fullKey demo_env)]\<rparr>) \<and>
   subject_next (with_decoder (\<lambda>s. Inr JNull) Inr demo_env) (JStr ''x'')
       \<lparr>items = Map.empty, trace = [], cur = JStr ''d''\<rparr> =
     subject_next demo_env (JStr ''x'') \<lparr>items = Map.empty, trace = [], cur = JStr ''d''\<rparr>"
proof -
  have k: "storageKey demo_env \<noteq> []" by (simp add: demo_env_def)
  have i: "items \<lparr>items = [''rca_k'' \<mapsto> ''{bad''], trace = []\<rparr> (fullKey demo_env) = Some ''{bad''"
    by (simp add: demo_env_def fullKey_def STORAGE_KEYS_PREFIX_def)
  have e: "''{bad'' \<noteq> []" by simp
  have p: "parse (JSON demo_env) ''{bad'' = Inl (SyntaxError ''Unexpected token'') \<or>
           (\<exists>c p. converter demo_env = Some c \<and> parse (JSON demo_env) ''{bad'' = Inr p \<and>
                  fromJson c p = Inl (SyntaxError ''Unexpected token''))"
    using ref_parse_bad by simp
  from decode_error_propagates [OF k i e p] k i e ref_parse_bad
  show ?thesis by blast
qed

text \<open>
  Claim C8 as it is stated speaks of every stored string. The empty string is stored, and
  \<^verbatim>\<open>JSON.parse\<close> rejects it, yet line 29 takes it for an absent entry: the binding is
  built on the fallback.
\<close>

theorem empty_stored_string_counterexample:
  "parse (JSON demo_env) [] = Inl (SyntaxError ''Unexpected end of JSON input'') \<and>
   storageFactory demo_env \<lparr>items = [''rca_k'' \<mapsto> []], trace = []\<rparr> =
     Returned
       \<lparr>items = [''rca_k'' \<mapsto> dquote # ''d'' @ [dquote]],
        trace = [GetItem ''rca_k'', Next (JStr ''d''), SetItem ''rca_k'' (dquote # ''d'' @ [dquote])],
        cur = JStr ''d''\<rparr>"
proof -
  have "initialValue demo_env (items \<lparr>items = [''rca_k'' \<mapsto> []], trace = []\<rparr> (fullKey demo_env)) =
          Inr (JStr ''d'')"
    by (simp add: initialValue_def demo_env_def fullKey_def STORAGE_KEYS_PREFIX_def)
  moreover have "storageKey demo_env \<noteq> []" by (simp add: demo_env_def)
  ultimately have "storageFactory demo_env \<lparr>items = [''rca_k'' \<mapsto> []], trace = []\<rparr> =
     Returned
       \<lparr>items = [''rca_k'' \<mapsto> dquote # ''d'' @ [dquote]],
        trace = [GetItem ''rca_k'', Next (JStr ''d''), SetItem ''rca_k'' (dquote # ''d'' @ [dquote])],
        cur = JStr ''d''\<rparr>"
    by (simp add: storageFactory_start depth_def observer_value demo_stored_d setItem_def
             del: observer.simps)
       (simp add: demo_env_def fullKey_def STORAGE_KEYS_PREFIX_def)
  with ref_parse_empty show ?thesis by simp
qed

text \<open>
  Claim C9, as the code has it. For every binding whose fallback is encodable and is not
  \<^verbatim>\<open>null\<close> or \<^verbatim>\<open>undefined\<close>, a publish of \<^verbatim>\<open>null\<close> delivers \<^verbatim>\<open>null\<close>,
  removes the entry, delivers the fallback and writes its stored form, in this order and
  in the same pass; when it returns, the store holds the stored form of the fallback at
  the namespaced key and the container's current value is the fallback.
\<close>

theorem publish_null_rewrites_fallback:
  assumes "nullish v"
    and "\<not> nullish (fallbackState e)"
    and "stored_form e (fallbackState e) = Inr s"
  shows "subject_next e v b =
           b\<lparr>items := (items b)(fullKey e \<mapsto> s),
             trace := trace b @
               [Next v, RemoveItem (fullKey e), Next (fallbackState e), SetItem (fullKey e) s],
             cur := fallbackState e\<rparr>"
  using assms by (rule subject_next_null)

theorem publish_null_rewrites_fallback_witness:
  "nullish JUndefined \<and> \<not> nullish (fallbackState test_env) \<and>
   stored_form test_env (fallbackState test_env) = Inr (dquote # ''defaultValue'' @ [dquote]) \<and>
   subject_next test_env JUndefined \<lparr>items = Map.empty, trace = [], cur = JStr ''newValue''\<rparr> =
     \<lparr>items = Map.empty, trace = [], cur = JStr ''newValue''\<rparr>
       \<lparr>items := (items \<lparr>items = Map.empty, trace = [], cur = JStr ''newValue''\<rparr>)
                   (fullKey test_env \<mapsto> dquote # ''defaultValue'' @ [dquote]),
        trace := trace \<lparr>items = Map.empty, trace = [], cur = JStr ''newValue''\<rparr> @
          [Next JUndefined, RemoveItem (fullKey test_env), Next (fallbackState test_env),
           SetItem (fullKey test_env) (dquote # ''defaultValue'' @ [dquote])],
        cur := fallbackState test_env\<rparr>"
proof -
  have n: "nullish JUndefined" by simp
  have f: "\<not> nullish (fallbackState test_env)" by (simp add: test_env_def)
  have s: "stored_form test_env (fallbackState test_env) = Inr (dquote # ''defaultValue'' @ [dquote])"
    using test_stored_default by (simp add: test_env_def)
  from publish_null_rewrites_fallback [OF n f s] n f s show ?thesis by blast
qed

text \<open>
  Claim C9 as it is stated speaks of every binding with a fallback other than
  \<^verbatim>\<open>null\<close>. With the converter of the tests and a fallback whose date is a string,
  publishing \<^verbatim>\<open>null\<close> removes the entry, \<^verbatim>\<open>toJson\<close> throws on the
  republished fallback, and the store holds no entry when the publish returns.
\<close>

theorem unencodable_fallback_counterexample:
  "\<not> nullish (fallbackState unencodable_env) \<and>
   subject_next unencodable_env JNull
     \<lparr>items = [''rca_testKey2'' \<mapsto> CHR ''{'' # dquote # ''date'' @ dquote # '':0}''],
      trace = [], cur = JObj [(''date'', JDate 0)]\<rparr> =
   \<lparr>items = Map.empty,
    trace = [Next JNull, RemoveItem ''rca_testKey2'',
             Next (JObj [(''date'', JStr ''2024-01-01'')]),
             Unhandled (TypeError ''getTime is not a function'')],
    cur = JObj [(''date'', JStr ''2024-01-01'')]\<rparr>"
proof -
  have f: "\<not> nullish (fallbackState unencodable_env)"
    by (simp add: unencodable_env_def)
  have "nullish JNull" by simp
  from subject_next_null_unencodable [OF this f unencodable_fallback] f show ?thesis
    by (simp add: unencodable_env_def date_env_def fullKey_def STORAGE_KEYS_PREFIX_def)
qed



end
